theory Spec2Isabelle
  imports Main
begin

section \<open>The loan scoring service of \<^verbatim>\<open>backend/app/api.py\<close>\<close>

text \<open>
  The module \<^verbatim>\<open>api.py\<close> holds the FastAPI application: the handler of request
  validation errors, the loading of the two models at import time, and the two scoring
  endpoints \<^verbatim>\<open>/predict\<close> (form in, HTML page out) and \<^verbatim>\<open>/apiTest\<close> (JSON in, JSON out).
  The handlers are embedded as functions on an explicit process state; every Python
  exception is a value of the type \<open>error\<close>.
\<close>

subsection \<open>Python values\<close>

text \<open>
  The values a decoded form or JSON body is made of. Numbers are the integers; the
  handlers look at one key only, \<^verbatim>\<open>bureau\<close>, and only at its truth value. \<open>PBytes\<close> is
  a \<^verbatim>\<open>bytes\<close> object, which is what the body of a request is when it was not read as
  JSON. A \<^verbatim>\<open>str\<close> is held as its UTF-8 bytes.
\<close>

datatype pyval =
    PNone
  | PBool bool
  | PInt int
  | PStr string
  | PBytes "char list"
  | PList "pyval list"
  | PDict "(string \<times> pyval) list"

type_synonym pydict = "(string \<times> pyval) list"

text \<open>Python's truth test, as \<^verbatim>\<open>if v:\<close> applies it.\<close>

fun truthy :: "pyval \<Rightarrow> bool" where
  "truthy PNone = False"
| "truthy (PBool b) = b"
| "truthy (PInt n) = (n \<noteq> 0)"
| "truthy (PStr s) = (s \<noteq> [])"
| "truthy (PBytes bs) = (bs \<noteq> [])"
| "truthy (PList xs) = (xs \<noteq> [])"
| "truthy (PDict kvs) = (kvs \<noteq> [])"

text \<open>\<^verbatim>\<open>d.get(k)\<close>: the value stored under the key, \<^verbatim>\<open>None\<close> when the key is missing.\<close>

definition dict_get :: "pydict \<Rightarrow> string \<Rightarrow> pyval" where
  "dict_get d k = (case map_of d k of None \<Rightarrow> PNone | Some v \<Rightarrow> v)"

subsection \<open>Exceptions\<close>

text \<open>
  \<open>NameError n\<close>: the global \<open>n\<close> is read while unbound. \<open>IndexError\<close> and \<open>TypeError\<close>
  are raised by the handlers' own indexing and string concatenation,
  \<open>UnicodeDecodeError\<close> by \<^verbatim>\<open>bytes.decode\<close>. \<open>Raised c\<close> is an exception of class \<open>c\<close>
  leaving a function of \<^verbatim>\<open>app.helper\<close> or \<^verbatim>\<open>joblib.load\<close>.
\<close>

datatype error = NameError string | IndexError | TypeError | UnicodeDecodeError | Raised string

subsection \<open>\<^verbatim>\<open>jsonable_encoder\<close>\<close>

text \<open>
  \<^verbatim>\<open>fastapi.encoders.jsonable_encoder\<close> on these values: \<^verbatim>\<open>None\<close>, booleans, numbers and
  strings are returned as they are, lists and dictionaries are encoded element by
  element, and a \<^verbatim>\<open>bytes\<close> object is decoded with \<^verbatim>\<open>bytes.decode()\<close>, which is strict UTF-8:
  it raises \<^verbatim>\<open>UnicodeDecodeError\<close> on a byte sequence that is not well-formed (a stray or
  missing continuation byte, an overlong form, a surrogate, a code point above
  \<^verbatim>\<open>U+10FFFF\<close>).
\<close>

definition continuation :: "nat \<Rightarrow> bool" where
  "continuation b \<longleftrightarrow> 0x80 \<le> b \<and> b \<le> 0xBF"

fun utf8_valid :: "nat list \<Rightarrow> bool" where
  "utf8_valid [] = True"
| "utf8_valid (b # bs) =
     (if b < 0x80 then utf8_valid bs
      else if 0xC2 \<le> b \<and> b \<le> 0xDF then
        (case bs of
           b1 # r \<Rightarrow> continuation b1 \<and> utf8_valid r
         | _ \<Rightarrow> False)
      else if 0xE0 \<le> b \<and> b \<le> 0xEF then
        (case bs of
           b1 # b2 # r \<Rightarrow>
             (if b = 0xE0 then 0xA0 \<le> b1 \<and> b1 \<le> 0xBF
              else if b = 0xED then 0x80 \<le> b1 \<and> b1 \<le> 0x9F
              else continuation b1)
             \<and> continuation b2 \<and> utf8_valid r
         | _ \<Rightarrow> False)
      else if 0xF0 \<le> b \<and> b \<le> 0xF4 then
        (case bs of
           b1 # b2 # b3 # r \<Rightarrow>
             (if b = 0xF0 then 0x90 \<le> b1 \<and> b1 \<le> 0xBF
              else if b = 0xF4 then 0x80 \<le> b1 \<and> b1 \<le> 0x8F
              else continuation b1)
             \<and> continuation b2 \<and> continuation b3 \<and> utf8_valid r
         | _ \<Rightarrow> False)
      else False)"

definition bytes_decode :: "char list \<Rightarrow> error + string" where
  "bytes_decode bs = (if utf8_valid (map of_char bs) then Inr bs else Inl UnicodeDecodeError)"

fun jsonable_encoder :: "pyval \<Rightarrow> error + pyval"
  and encode_list :: "pyval list \<Rightarrow> error + pyval list"
  and encode_items :: "(string \<times> pyval) list \<Rightarrow> error + (string \<times> pyval) list" where
  "jsonable_encoder (PBytes bs) =
     (case bytes_decode bs of Inl e \<Rightarrow> Inl e | Inr s \<Rightarrow> Inr (PStr s))"
| "jsonable_encoder (PList xs) =
     (case encode_list xs of Inl e \<Rightarrow> Inl e | Inr ys \<Rightarrow> Inr (PList ys))"
| "jsonable_encoder (PDict kvs) =
     (case encode_items kvs of Inl e \<Rightarrow> Inl e | Inr kws \<Rightarrow> Inr (PDict kws))"
| "jsonable_encoder v = Inr v"
| "encode_list [] = Inr []"
| "encode_list (x # xs) =
     (case jsonable_encoder x of
        Inl e \<Rightarrow> Inl e
      | Inr y \<Rightarrow> (case encode_list xs of Inl e \<Rightarrow> Inl e | Inr ys \<Rightarrow> Inr (y # ys)))"
| "encode_items [] = Inr []"
| "encode_items ((k, v) # kvs) =
     (case jsonable_encoder v of
        Inl e \<Rightarrow> Inl e
      | Inr w \<Rightarrow> (case encode_items kvs of Inl e \<Rightarrow> Inl e | Inr kws \<Rightarrow> Inr ((k, w) # kws)))"

subsection \<open>The functions imported from \<^verbatim>\<open>app.helper\<close>\<close>

text \<open>
  Modelled from the spec: the module \<^verbatim>\<open>app.helper\<close>, from which \<^verbatim>\<open>api.py\<close> imports
  \<^verbatim>\<open>feature_engineering\<close>, \<^verbatim>\<open>parse_request\<close>, \<^verbatim>\<open>parse_input\<close>, \<^verbatim>\<open>predict_score\<close> and
  \<^verbatim>\<open>grade_binning\<close>, is missing. The five functions are parameters of the model. The
  specification describes validation, feature derivation and grade binning as pure and
  deterministic and the models as never mutated, so each parameter is a function of its
  arguments that returns its value or raises; nothing else about it is assumed.
  \<open>'i\<close> is the parsed input, \<open>'f\<close> the feature table, \<open>'m\<close> a loaded model, and
  \<open>'s\<close>, \<open>'p\<close>, \<open>'d\<close> are the score, the probability and the loan decision that
  \<^verbatim>\<open>predict_score\<close> returns as a triple.
\<close>

record ('i, 'f, 'm, 's, 'p, 'd) helper =
  parse_request :: "pydict \<Rightarrow> error + pydict"
  parse_input :: "pydict \<Rightarrow> error + 'i"
  feature_engineering :: "'i \<Rightarrow> error + 'f"
  predict_score :: "'f \<Rightarrow> 'm \<Rightarrow> error + ('s \<times> 'p \<times> 'd)"
  grade_binning :: "'p \<Rightarrow> string \<Rightarrow> error + string"

subsection \<open>Requests and responses\<close>

text \<open>One entry of \<^verbatim>\<open>exc.errors()\<close>: \<^verbatim>\<open>loc\<close> is a tuple of strings and integers.\<close>

datatype loc_item = LStr string | LInt int

record validation_error =
  loc :: "loc_item list"
  msg :: string
  err_type :: string

record request_validation_error =
  errors :: "validation_error list"
  body :: pyval

text \<open>\<^verbatim>\<open>JSONResponse(status_code=..., content=...)\<close>\<close>

record json_response =
  status_code :: nat
  content :: string

text \<open>
  The request of \<^verbatim>\<open>/predict\<close>, reduced to what the handler reads from it:
  \<open>form\<close> is \<^verbatim>\<open>jsonable_encoder(await request.form())\<close>.
\<close>

record request =
  form :: pydict

text \<open>\<^verbatim>\<open>templates.TemplateResponse(page, context={'request': request, 'grade': grade})\<close>\<close>

record template_context =
  ctx_request :: request
  ctx_grade :: string

record template_response =
  template :: string
  page_context :: template_context

subsection \<open>Process state and effects\<close>

text \<open>
  What a run leaves behind, in order: the lines printed at start-up, the calls into
  \<^verbatim>\<open>app.helper\<close> with their arguments, and the records handed to the logger.
  \<open>Call_predict_score t n m\<close> is the call \<^verbatim>\<open>predict_score(t, n)\<close> where the global \<open>n\<close>
  holds the model \<open>m\<close>.
\<close>

datatype ('i, 'f, 'm, 's, 'p, 'd) event =
    Print string
  | Call_parse_request pydict
  | Call_parse_input pydict
  | Call_feature_engineering 'i
  | Call_predict_score 'f string 'm
  | Call_grade_binning 'p string
  | Log_error "validation_error list" pyval
  | Log_debug string
  | Log_info_predicting 's
  | Log_info_loan_decision 'd

text \<open>
  The module globals \<^verbatim>\<open>model_bureau\<close> and \<^verbatim>\<open>model_no_bureau\<close> (\<open>None\<close>: the name is
  unbound), and the effects so far.
\<close>

record ('i, 'f, 'm, 's, 'p, 'd) state =
  model_bureau :: "'m option"
  model_no_bureau :: "'m option"
  trace :: "('i, 'f, 'm, 's, 'p, 'd) event list"

text \<open>A statement sequence: it runs on a state and ends in a value or an exception.\<close>

type_synonym ('a, 'st) action = "'st \<Rightarrow> (error + 'a) \<times> 'st"

definition return_val :: "'a \<Rightarrow> ('a, 'st) action" where
  "return_val x = (\<lambda>s. (Inr x, s))"

definition raise_exc :: "error \<Rightarrow> ('a, 'st) action" where
  "raise_exc e = (\<lambda>s. (Inl e, s))"

definition and_then :: "('a, 'st) action \<Rightarrow> ('a \<Rightarrow> ('b, 'st) action) \<Rightarrow> ('b, 'st) action" where
  "and_then m f = (\<lambda>s. case m s of (Inl e, s') \<Rightarrow> (Inl e, s') | (Inr x, s') \<Rightarrow> f x s')"

definition emit ::
  "('i, 'f, 'm, 's, 'p, 'd) event \<Rightarrow> (unit, ('i, 'f, 'm, 's, 'p, 'd) state) action" where
  "emit ev = (\<lambda>s. (Inr (), s\<lparr>trace := trace s @ [ev]\<rparr>))"

text \<open>A call of a helper: the call is recorded, then it returns or raises.\<close>

definition call ::
  "('i, 'f, 'm, 's, 'p, 'd) event \<Rightarrow> error + 'a \<Rightarrow> ('a, ('i, 'f, 'm, 's, 'p, 'd) state) action" where
  "call ev r = and_then (emit ev) (\<lambda>_. case r of Inl e \<Rightarrow> raise_exc e | Inr x \<Rightarrow> return_val x)"

text \<open>Reading a module global: \<^verbatim>\<open>NameError\<close> when the name is unbound.\<close>

definition read_global ::
  "string \<Rightarrow> ('st \<Rightarrow> 'm option) \<Rightarrow> ('m, 'st) action" where
  "read_global n sel = (\<lambda>s. case sel s of None \<Rightarrow> (Inl (NameError n), s) | Some m \<Rightarrow> (Inr m, s))"

subsection \<open>\<^verbatim>\<open>validation_exception_handler\<close>\<close>

text \<open>
  \<^verbatim>\<open>content_log\<close> is \<^verbatim>\<open>jsonable_encoder({"detail": exc.errors(), "body": exc.body})\<close>: the
  entries of \<^verbatim>\<open>exc.errors()\<close> hold strings and integers only, so the encoder can raise on
  the body alone. Then \<^verbatim>\<open>content_log.get("detail")[0]\<close> and \<^verbatim>\<open>.get("loc")[1]\<close> index without
  a check, the record is logged, and the message, \<^verbatim>\<open>", field : "\<close> and the second element
  of \<^verbatim>\<open>loc\<close> are concatenated: a \<^verbatim>\<open>str\<close> and an \<^verbatim>\<open>int\<close> do not concatenate.
\<close>

definition HTTP_422_UNPROCESSABLE_ENTITY :: nat where
  "HTTP_422_UNPROCESSABLE_ENTITY = 422"

definition validation_exception_handler ::
  "request_validation_error \<Rightarrow> (json_response, ('i, 'f, 'm, 's, 'p, 'd) state) action" where
  "validation_exception_handler exc =
     and_then
       (case jsonable_encoder (body exc) of Inl e \<Rightarrow> raise_exc e | Inr b \<Rightarrow> return_val b)
       (\<lambda>content_body.
     case errors exc of
       [] \<Rightarrow> raise_exc IndexError
     | e # _ \<Rightarrow>
         (let content_msg = msg e in
          case loc e of
            _ # content_loc # _ \<Rightarrow>
              and_then (emit (Log_error (errors exc) content_body)) (\<lambda>_.
                case content_loc of
                  LStr field \<Rightarrow>
                    return_val \<lparr>status_code = HTTP_422_UNPROCESSABLE_ENTITY,
                                content = content_msg @ '', field : '' @ field\<rparr>
                | LInt _ \<Rightarrow> raise_exc TypeError)
          | _ \<Rightarrow> raise_exc IndexError))"

subsection \<open>Loading the models\<close>


subsection \<open>\<^verbatim>\<open>root\<close> and \<^verbatim>\<open>index_html\<close>, the handlers of \<^verbatim>\<open>GET /\<close> and \<^verbatim>\<open>GET /home\<close>\<close>

text \<open>
  \<^verbatim>\<open>root\<close> redirects to the path of \<^verbatim>\<open>index_html\<close>, which the decorator registers as
  \<^verbatim>\<open>/home\<close>; the value is the target of the \<^verbatim>\<open>RedirectResponse\<close>. \<^verbatim>\<open>index_html\<close> renders
  \<^verbatim>\<open>index.html\<close> with the request as its context.
\<close>

definition root :: "(string, ('i, 'f, 'm, 's, 'p, 'd) state) action" where
  "root =
     (let url = ''/home'' in
      and_then (emit (Log_debug ''Redirected to home'')) (\<lambda>_. return_val url))"

definition index_html :: "request \<Rightarrow> (string \<times> request, 'st) action" where
  "index_html req = return_val (''index.html'', req)"

subsection \<open>\<^verbatim>\<open>get_prediction\<close>, the handler of \<^verbatim>\<open>POST /predict\<close>\<close>

definition get_prediction ::
  "('i, 'f, 'm, 's, 'p, 'd) helper \<Rightarrow> request \<Rightarrow>
   (template_response, ('i, 'f, 'm, 's, 'p, 'd) state) action" where
  "get_prediction h req =
     (let reqData = form req in
      and_then (call (Call_parse_request reqData) (parse_request h reqData)) (\<lambda>reqData_parsed.
      and_then (call (Call_parse_input reqData_parsed) (parse_input h reqData_parsed)) (\<lambda>inp.
      and_then (call (Call_feature_engineering inp) (feature_engineering h inp)) (\<lambda>t.
      and_then
        (if truthy (dict_get reqData ''bureau'') then
           and_then (read_global ''model_bureau'' model_bureau) (\<lambda>m.
           and_then (call (Call_predict_score t ''model_bureau'' m) (predict_score h t m))
             (\<lambda>(score, proba, loan_dec).
           and_then (call (Call_grade_binning proba ''model_bureau'')
                          (grade_binning h proba ''model_bureau'')) (\<lambda>grade.
           return_val (score, loan_dec, grade))))
         else
           and_then (read_global ''model_no_bureau'' model_no_bureau) (\<lambda>m.
           and_then (call (Call_predict_score t ''model_no_bureau'' m) (predict_score h t m))
             (\<lambda>(score, proba, loan_dec).
           and_then (call (Call_grade_binning proba ''model_no_bureau'')
                          (grade_binning h proba ''model_no_bureau'')) (\<lambda>grade.
           return_val (score, loan_dec, grade)))))
        (\<lambda>(score, loan_dec, grade).
      let page = (if grade \<in> set [''A'', ''B''] then ''result_approve.html''
                  else ''result_reject.html'') in
      and_then (emit (Log_info_predicting score)) (\<lambda>_.
      and_then (emit (Log_info_loan_decision loan_dec)) (\<lambda>_.
      return_val \<lparr>template = page,
                  page_context = \<lparr>ctx_request = req, ctx_grade = grade\<rparr>\<rparr>)))))))"

subsection \<open>\<^verbatim>\<open>testing\<close>, the handler of \<^verbatim>\<open>POST /apiTest\<close>\<close>

text \<open>
  \<open>req_dict\<close> is \<^verbatim>\<open>req.dict()\<close>, the validated body as a dictionary. The handler returns the
  dictionary \<^verbatim>\<open>{"LoanDecision": loan_dec}\<close>.
\<close>

definition testing ::
  "('i, 'f, 'm, 's, 'p, 'd) helper \<Rightarrow> pydict \<Rightarrow>
   ((string \<times> 'd) list, ('i, 'f, 'm, 's, 'p, 'd) state) action" where
  "testing h req_dict =
     and_then (call (Call_parse_input req_dict) (parse_input h req_dict)) (\<lambda>inp.
     and_then (call (Call_feature_engineering inp) (feature_engineering h inp)) (\<lambda>t.
     and_then
       (if truthy (dict_get req_dict ''bureau'') then
          and_then (read_global ''model_bureau'' model_bureau) (\<lambda>m.
          call (Call_predict_score t ''model_bureau'' m) (predict_score h t m))
        else
          and_then (read_global ''model_no_bureau'' model_no_bureau) (\<lambda>m.
          call (Call_predict_score t ''model_no_bureau'' m) (predict_score h t m)))
       (\<lambda>(score, proba, loan_dec).
     and_then (emit (Log_info_predicting score)) (\<lambda>_.
     return_val [(''LoanDecision'', loan_dec)]))))"

text \<open>The effects a run added: what the trace holds beyond the trace it started from.\<close>

definition emitted ::
  "('i, 'f, 'm, 's, 'p, 'd) state \<Rightarrow> ('i, 'f, 'm, 's, 'p, 'd) state \<Rightarrow>
   ('i, 'f, 'm, 's, 'p, 'd) event list" where
  "emitted s s' = drop (length (trace s)) (trace s')"


text \<open>
  Which model and which grading table a run used: the names of the globals passed to
  \<^verbatim>\<open>predict_score\<close>, and the tags passed to \<^verbatim>\<open>grade_binning\<close>, in call order.
\<close>

fun models_used :: "('i, 'f, 'm, 's, 'p, 'd) event list \<Rightarrow> string list" where
  "models_used [] = []"
| "models_used (Call_predict_score t n m # es) = n # models_used es"
| "models_used (_ # es) = models_used es"

fun binning_tags :: "('i, 'f, 'm, 's, 'p, 'd) event list \<Rightarrow> string list" where
  "binning_tags [] = []"
| "binning_tags (Call_grade_binning p tag # es) = tag # binning_tags es"
| "binning_tags (_ # es) = binning_tags es"

subsection \<open>The example payloads of \<^verbatim>\<open>/apiTest\<close>\<close>

text \<open>The two values under \<^verbatim>\<open>examples\<close> in the signature of \<^verbatim>\<open>testing\<close>.\<close>

definition bureaufound :: pydict where
  "bureaufound =
     [(''age'', PInt 20), (''income'', PInt 1000000), (''gender'', PStr ''Male''),
      (''hasApplied'', PStr ''Yes''), (''hasIncome'', PStr ''Yes''),
      (''education'', PStr ''Diploma''), (''purpose'', PStr ''Working Capital''),
      (''bureau'', PDict [(''loanWithDelay'', PInt 0), (''loanNoDelay'', PInt 0)])]"

definition nobureau :: pydict where
  "nobureau =
     [(''age'', PInt 22), (''income'', PInt 2000000), (''gender'', PStr ''Female''),
      (''hasApplied'', PStr ''No''), (''hasIncome'', PStr ''Yes''),
      (''education'', PStr ''Bachelor Degree''), (''purpose'', PStr ''Investment''),
      (''bureau'', PNone)]"

text \<open>
  Stand-ins for the helpers and the models, to run the handlers on the example payloads:
  parsing keeps the record, the features are its field names, the decision tells which model
  scored, and the grade tells which table graded.
\<close>

abbreviation sample_helper :: "(pydict, string list, string, int, nat, bool) helper" where
  "sample_helper \<equiv>
     \<lparr>parse_request = Inr, parse_input = Inr,
      feature_engineering = (\<lambda>i. Inr (map fst i)),
      predict_score = (\<lambda>t m. Inr (700, 80, m = ''xgb_retrain_bureau'')),
      grade_binning = (\<lambda>p tag. Inr (if tag = ''model_bureau'' then ''A'' else ''C''))\<rparr>"

abbreviation sample_state :: "(pydict, string list, string, int, nat, bool) state" where
  "sample_state \<equiv>
     \<lparr>model_bureau = Some ''xgb_retrain_bureau'', model_no_bureau = Some ''xgb_retrain_no_bureau'',
      trace = []\<rparr>"

section \<open>Running the handlers\<close>

text \<open>How the building blocks of a statement sequence run.\<close>

lemma return_val_run: "return_val x s = (Inr x, s)"
  by (simp add: return_val_def)

lemma raise_exc_run: "raise_exc e s = (Inl e, s)"
  by (simp add: raise_exc_def)

lemma and_then_emit: "and_then (emit ev) f s = f () (s\<lparr>trace := trace s @ [ev]\<rparr>)"
  by (simp add: and_then_def emit_def)

lemma and_then_assoc: "and_then (and_then m f) g = and_then m (\<lambda>x. and_then (f x) g)"
  by (auto simp: and_then_def fun_eq_iff split: prod.splits sum.splits)

lemma and_then_return: "and_then (return_val x) f = f x"
  by (simp add: and_then_def return_val_def)

lemma and_then_raise: "and_then (raise_exc e) f = raise_exc e"
  by (simp add: and_then_def raise_exc_def)

lemma call_Inl: "call ev (Inl e) = and_then (emit ev) (\<lambda>_. raise_exc e)"
  by (simp add: call_def)

lemma call_Inr: "call ev (Inr x) = and_then (emit ev) (\<lambda>_. return_val x)"
  by (simp add: call_def)

lemma call_run_Inl: "call ev (Inl e) s = (Inl e, s\<lparr>trace := trace s @ [ev]\<rparr>)"
  by (simp add: call_def and_then_emit raise_exc_run)

lemma call_run_Inr: "call ev (Inr x) s = (Inr x, s\<lparr>trace := trace s @ [ev]\<rparr>)"
  by (simp add: call_def and_then_emit return_val_run)

lemma and_then_read_global:
  "and_then (read_global n sel) f s =
     (case sel s of None \<Rightarrow> (Inl (NameError n), s) | Some m \<Rightarrow> f m s)"
  by (simp add: and_then_def read_global_def split: option.splits)

lemmas run_simps = return_val_run raise_exc_run and_then_emit and_then_assoc and_then_return
  and_then_raise call_Inl call_Inr and_then_read_global call_run_Inl call_run_Inr

text \<open>
  The handlers in direct style: one case per helper that may raise, with the state each
  case ends in.
\<close>

lemma testing_run:
  "testing h rd s =
    (let n = (if truthy (dict_get rd ''bureau'') then ''model_bureau'' else ''model_no_bureau'');
         bound = (if truthy (dict_get rd ''bureau'') then model_bureau s else model_no_bureau s)
     in case parse_input h rd of
          Inl e \<Rightarrow> (Inl e, s\<lparr>trace := trace s @ [Call_parse_input rd]\<rparr>)
        | Inr i \<Rightarrow>
       (case feature_engineering h i of
          Inl e \<Rightarrow> (Inl e, s\<lparr>trace := trace s @ [Call_parse_input rd, Call_feature_engineering i]\<rparr>)
        | Inr t \<Rightarrow>
       (case bound of
          None \<Rightarrow> (Inl (NameError n),
                   s\<lparr>trace := trace s @ [Call_parse_input rd, Call_feature_engineering i]\<rparr>)
        | Some m \<Rightarrow>
       (case predict_score h t m of
          Inl e \<Rightarrow> (Inl e, s\<lparr>trace := trace s @ [Call_parse_input rd, Call_feature_engineering i,
                      Call_predict_score t n m]\<rparr>)
        | Inr (score, proba, loan_dec) \<Rightarrow>
            (Inr [(''LoanDecision'', loan_dec)],
             s\<lparr>trace := trace s @ [Call_parse_input rd, Call_feature_engineering i,
                      Call_predict_score t n m, Log_info_predicting score]\<rparr>)))))"
  by (simp add: testing_def Let_def run_simps split: sum.split option.split prod.split)


lemma get_prediction_run:
  "get_prediction h rq s =
    (let reqData = form rq;
         n = (if truthy (dict_get reqData ''bureau'') then ''model_bureau'' else ''model_no_bureau'');
         bound = (if truthy (dict_get reqData ''bureau'') then model_bureau s else model_no_bureau s)
     in case parse_request h reqData of
          Inl e \<Rightarrow> (Inl e, s\<lparr>trace := trace s @ [Call_parse_request reqData]\<rparr>)
        | Inr rp \<Rightarrow>
       (case parse_input h rp of
          Inl e \<Rightarrow> (Inl e, s\<lparr>trace := trace s @ [Call_parse_request reqData, Call_parse_input rp]\<rparr>)
        | Inr i \<Rightarrow>
       (case feature_engineering h i of
          Inl e \<Rightarrow> (Inl e, s\<lparr>trace := trace s @ [Call_parse_request reqData, Call_parse_input rp,
                      Call_feature_engineering i]\<rparr>)
        | Inr t \<Rightarrow>
       (case bound of
          None \<Rightarrow> (Inl (NameError n),
                   s\<lparr>trace := trace s @ [Call_parse_request reqData, Call_parse_input rp,
                      Call_feature_engineering i]\<rparr>)
        | Some m \<Rightarrow>
       (case predict_score h t m of
          Inl e \<Rightarrow> (Inl e, s\<lparr>trace := trace s @ [Call_parse_request reqData, Call_parse_input rp,
                      Call_feature_engineering i, Call_predict_score t n m]\<rparr>)
        | Inr (score, proba, loan_dec) \<Rightarrow>
       (case grade_binning h proba n of
          Inl e \<Rightarrow> (Inl e, s\<lparr>trace := trace s @ [Call_parse_request reqData, Call_parse_input rp,
                      Call_feature_engineering i, Call_predict_score t n m,
                      Call_grade_binning proba n]\<rparr>)
        | Inr grade \<Rightarrow>
            (Inr \<lparr>template = (if grade = ''A'' \<or> grade = ''B'' then ''result_approve.html''
                               else ''result_reject.html''),
                  page_context = \<lparr>ctx_request = rq, ctx_grade = grade\<rparr>\<rparr>,
             s\<lparr>trace := trace s @ [Call_parse_request reqData, Call_parse_input rp,
                      Call_feature_engineering i, Call_predict_score t n m,
                      Call_grade_binning proba n, Log_info_predicting score,
                      Log_info_loan_decision loan_dec]\<rparr>)))))))"
  by (simp add: get_prediction_def Let_def run_simps split: sum.split option.split prod.split)

lemma validation_exception_handler_run:
  "validation_exception_handler exc s =
     (case jsonable_encoder (body exc) of
        Inl e \<Rightarrow> (Inl e, s)
      | Inr content_body \<Rightarrow>
     (case errors exc of
        [] \<Rightarrow> (Inl IndexError, s)
      | e # _ \<Rightarrow>
          (case loc e of
             [] \<Rightarrow> (Inl IndexError, s)
           | [_] \<Rightarrow> (Inl IndexError, s)
           | _ # LInt _ # _ \<Rightarrow>
               (Inl TypeError, s\<lparr>trace := trace s @ [Log_error (errors exc) content_body]\<rparr>)
           | _ # LStr field # _ \<Rightarrow>
               (Inr \<lparr>status_code = 422, content = msg e @ '', field : '' @ field\<rparr>,
                s\<lparr>trace := trace s @ [Log_error (errors exc) content_body]\<rparr>))))"
  by (simp add: validation_exception_handler_def HTTP_422_UNPROCESSABLE_ENTITY_def Let_def run_simps
      split: sum.split list.split loc_item.split)

lemma jsonable_encoder_error:
  "jsonable_encoder v = Inl e \<longrightarrow> e = UnicodeDecodeError"
  "encode_list xs = Inl e \<longrightarrow> e = UnicodeDecodeError"
  "encode_items kvs = Inl e \<longrightarrow> e = UnicodeDecodeError"
  by (induction v and xs and kvs rule: jsonable_encoder_encode_list_encode_items.induct)
    (auto simp: bytes_decode_def split: sum.splits if_splits)

lemma root_run: "root s = (Inr ''/home'', s\<lparr>trace := trace s @ [Log_debug ''Redirected to home'']\<rparr>)"
  by (simp add: root_def Let_def run_simps)

lemma index_html_run: "index_html req s = (Inr (''index.html'', req), s)"
  by (simp add: index_html_def run_simps)


lemma emitted_append: "emitted s (s\<lparr>trace := trace s @ es\<rparr>) = es"
  by (simp add: emitted_def)





section \<open>The validation error handler\<close>

text \<open>
  Claim C9, as stated, fails. A body sent with a content type other than JSON reaches the
  handler as \<^verbatim>\<open>bytes\<close>, reported at \<^verbatim>\<open>loc = ("body",)\<close>. When the bytes are not UTF-8 the
  handler raises \<^verbatim>\<open>UnicodeDecodeError\<close> in \<^verbatim>\<open>jsonable_encoder\<close>: its indexing of the short
  \<^verbatim>\<open>loc\<close> is never reached, and the exception is not \<^verbatim>\<open>IndexError\<close>.
\<close>

theorem validation_exception_handler_partial_counterexample:
  "validation_exception_handler
      \<lparr>errors = [\<lparr>loc = [LStr ''body''], msg = ''value is not a valid dict'',
                   err_type = ''type_error.dict''\<rparr>], body = PBytes [CHR 0xFF]\<rparr> sample_state
     = (Inl UnicodeDecodeError, sample_state)
   \<and> fst (validation_exception_handler
      \<lparr>errors = [\<lparr>loc = [LStr ''body''], msg = ''value is not a valid dict'',
                   err_type = ''type_error.dict''\<rparr>], body = PBytes [CHR 0xFF]\<rparr> sample_state)
     \<noteq> Inl IndexError"
  by (simp add: validation_exception_handler_run bytes_decode_def)

text \<open>
  Claim C9, amended. \<^verbatim>\<open>validation_exception_handler\<close> is partial. It returns its response,
  with status 422, only when \<^verbatim>\<open>exc.errors()\<close> is not empty and the \<^verbatim>\<open>loc\<close> of its first entry
  has at least two elements. When the list is empty or that \<^verbatim>\<open>loc\<close> is shorter, no response
  is produced and nothing is logged: if \<^verbatim>\<open>jsonable_encoder\<close> accepts the body, the handler's
  own indexing raises \<^verbatim>\<open>IndexError\<close>; otherwise \<^verbatim>\<open>jsonable_encoder\<close> has raised
  \<^verbatim>\<open>UnicodeDecodeError\<close> before the indexing.
\<close>

theorem validation_exception_handler_partial:
  "(\<forall>r s'. validation_exception_handler exc s = (Inr r, s') \<longrightarrow>
      errors exc \<noteq> [] \<and> 2 \<le> length (loc (hd (errors exc))) \<and>
      status_code r = 422)
   \<and> (errors exc = [] \<or> length (loc (hd (errors exc))) < 2 \<longrightarrow>
      (\<forall>b. jsonable_encoder (body exc) = Inr b \<longrightarrow>
         validation_exception_handler exc s = (Inl IndexError, s)) \<and>
      (\<forall>e. jsonable_encoder (body exc) = Inl e \<longrightarrow>
         validation_exception_handler exc s = (Inl UnicodeDecodeError, s)))"
proof (intro conjI allI impI)
  fix r s'
  assume "validation_exception_handler exc s = (Inr r, s')"
  then show "errors exc \<noteq> []" and "2 \<le> length (loc (hd (errors exc)))"
    and "status_code r = 422"
    by (auto simp: validation_exception_handler_run
        split: sum.splits list.splits loc_item.splits)
next
  fix b
  assume "errors exc = [] \<or> length (loc (hd (errors exc))) < 2"
    and "jsonable_encoder (body exc) = Inr b"
  then show "validation_exception_handler exc s = (Inl IndexError, s)"
    by (auto simp: validation_exception_handler_run split: list.splits loc_item.splits)
next
  fix e
  assume "jsonable_encoder (body exc) = Inl e"
  moreover from this have "e = UnicodeDecodeError"
    using jsonable_encoder_error(1) by blast
  ultimately show "validation_exception_handler exc s = (Inl UnicodeDecodeError, s)"
    by (simp add: validation_exception_handler_run)
qed

theorem validation_exception_handler_partial_witness:
  "validation_exception_handler
      \<lparr>errors = [\<lparr>loc = [LStr ''body'', LStr ''age''], msg = ''field required'',
                   err_type = ''value_error.missing''\<rparr>], body = PDict []\<rparr> sample_state
     = (Inr \<lparr>status_code = 422, content = ''field required, field : age''\<rparr>,
        sample_state\<lparr>trace :=
          [Log_error [\<lparr>loc = [LStr ''body'', LStr ''age''], msg = ''field required'',
                        err_type = ''value_error.missing''\<rparr>] (PDict [])]\<rparr>)
   \<and> validation_exception_handler \<lparr>errors = [], body = PNone\<rparr> sample_state
     = (Inl IndexError, sample_state)
   \<and> validation_exception_handler
      \<lparr>errors = [\<lparr>loc = [LStr ''body''], msg = ''field required'',
                   err_type = ''value_error.missing''\<rparr>], body = PNone\<rparr> sample_state
     = (Inl IndexError, sample_state)
   \<and> validation_exception_handler
      \<lparr>errors = [\<lparr>loc = [LStr ''body''], msg = ''value is not a valid dict'',
                   err_type = ''type_error.dict''\<rparr>], body = PBytes [CHR 0xFF]\<rparr> sample_state
     = (Inl UnicodeDecodeError, sample_state)"
  using validation_exception_handler_partial
    [of "\<lparr>errors = [], body = PNone\<rparr>" sample_state]
    validation_exception_handler_partial
    [of "\<lparr>errors = [\<lparr>loc = [LStr ''body''], msg = ''field required'',
                   err_type = ''value_error.missing''\<rparr>], body = PNone\<rparr>" sample_state]
    validation_exception_handler_partial
    [of "\<lparr>errors = [\<lparr>loc = [LStr ''body'', LStr ''age''], msg = ''field required'',
                   err_type = ''value_error.missing''\<rparr>], body = PDict []\<rparr>" sample_state]
    validation_exception_handler_partial
    [of "\<lparr>errors = [\<lparr>loc = [LStr ''body''], msg = ''value is not a valid dict'',
                   err_type = ''type_error.dict''\<rparr>], body = PBytes [CHR 0xFF]\<rparr>" sample_state]
  by (simp add: validation_exception_handler_run bytes_decode_def)

text \<open>
  Claim C4. Every validation failure is to end in a 422 response that names the field.
  The handler does so for a record that lacks \<^verbatim>\<open>age\<close> (the first run of the witness above), and misses
  two errors the framework raises for \<^verbatim>\<open>/apiTest\<close>. A request without a body is reported
  at \<^verbatim>\<open>loc = ("body",)\<close>: the handler raises \<^verbatim>\<open>IndexError\<close>. A body that is not JSON is
  reported at \<^verbatim>\<open>loc = ("body", 1)\<close>, the position of the syntax error: the handler logs
  the record and raises \<^verbatim>\<open>TypeError\<close>. Either exception leaves the handler uncaught.
\<close>

theorem validation_exception_handler_escapes:
  "validation_exception_handler
      \<lparr>errors = [\<lparr>loc = [LStr ''body''], msg = ''field required'',
                   err_type = ''value_error.missing''\<rparr>], body = PNone\<rparr> s
     = (Inl IndexError, s)
   \<and> fst (validation_exception_handler
      \<lparr>errors = [\<lparr>loc = [LStr ''body'', LInt 1],
                   msg = ''Expecting property name enclosed in double quotes'',
                   err_type = ''value_error.jsondecode''\<rparr>], body = PStr ''{age''\<rparr> s)
     = Inl TypeError"
  by (simp add: validation_exception_handler_run)

section \<open>Which model scores a request\<close>


lemma testing_routing:
  assumes "testing h rd s = (out, s')"
  shows "set (models_used (emitted s s')) \<subseteq>
           {if truthy (dict_get rd ''bureau'') then ''model_bureau'' else ''model_no_bureau''}
       \<and> binning_tags (emitted s s') = []
       \<and> (\<forall>p tag. Call_grade_binning p tag \<notin> set (emitted s s'))
       \<and> ((\<exists>r. out = Inr r) \<longrightarrow>
            models_used (emitted s s') =
              [if truthy (dict_get rd ''bureau'') then ''model_bureau'' else ''model_no_bureau''])
       \<and> (\<forall>t n m. Call_predict_score t n m \<in> set (emitted s s') \<longrightarrow>
            (if truthy (dict_get rd ''bureau'') then model_bureau s else model_no_bureau s)
              = Some m)"
  using assms
  by (simp add: testing_run Let_def emitted_append
      split: sum.splits option.splits prod.splits) (auto simp: emitted_append)





section \<open>The JSON endpoint\<close>



text \<open>
  Claim C10. \<^verbatim>\<open>testing\<close> never computes a grade: no run of it calls \<^verbatim>\<open>grade_binning\<close>,
  and replacing \<^verbatim>\<open>grade_binning\<close> by any other function changes neither what it returns nor
  what it leaves behind. Its answer is therefore independent of the grade that selects
  the page in \<^verbatim>\<open>get_prediction\<close>.
\<close>

theorem testing_never_grades:
  "binning_tags (emitted s (snd (testing h rd s))) = []
   \<and> (\<forall>p tag. Call_grade_binning p tag \<notin> set (emitted s (snd (testing h rd s))))
   \<and> testing (h\<lparr>grade_binning := gb\<rparr>) rd s = testing h rd s"
proof -
  have "testing h rd s = (fst (testing h rd s), snd (testing h rd s))" by simp
  from testing_routing [OF this]
  have "binning_tags (emitted s (snd (testing h rd s))) = []"
    and "\<forall>p tag. Call_grade_binning p tag \<notin> set (emitted s (snd (testing h rd s)))"
    by blast+
  moreover have "testing (h\<lparr>grade_binning := gb\<rparr>) rd s = testing h rd s"
    by (simp add: testing_def cong: if_cong)
  ultimately show ?thesis by blast
qed

section \<open>The form endpoint\<close>

text \<open>
  Claim C3. Whenever the helpers return and the selected model is loaded,
  \<^verbatim>\<open>get_prediction\<close> returns a page, for every grade: \<^verbatim>\<open>result_approve.html\<close> if the grade
  that \<^verbatim>\<open>grade_binning\<close> returned is \<^verbatim>\<open>A\<close> or \<^verbatim>\<open>B\<close>, \<^verbatim>\<open>result_reject.html\<close> for every other
  grade, with the request and that grade as the context. Conversely, every page the
  handler returns is the approve page if and only if the grade in its context is \<^verbatim>\<open>A\<close> or
  \<^verbatim>\<open>B\<close>, is the reject page otherwise, and its grade is what \<^verbatim>\<open>grade_binning\<close> returned for
  the probability that \<^verbatim>\<open>predict_score\<close> returned.
\<close>

theorem get_prediction_page:
  "(\<forall>rp i t m score proba loan_dec grade.
      parse_request h (form rq) = Inr rp \<and> parse_input h rp = Inr i \<and>
      feature_engineering h i = Inr t \<and>
      (if truthy (dict_get (form rq) ''bureau'') then model_bureau s else model_no_bureau s)
        = Some m \<and>
      predict_score h t m = Inr (score, proba, loan_dec) \<and>
      grade_binning h proba
        (if truthy (dict_get (form rq) ''bureau'') then ''model_bureau'' else ''model_no_bureau'')
        = Inr grade \<longrightarrow>
      fst (get_prediction h rq s) =
        Inr \<lparr>template = (if grade \<in> {''A'', ''B''} then ''result_approve.html''
                          else ''result_reject.html''),
             page_context = \<lparr>ctx_request = rq, ctx_grade = grade\<rparr>\<rparr>)
   \<and> (\<forall>resp. fst (get_prediction h rq s) = Inr resp \<longrightarrow>
        (template resp = ''result_approve.html'' \<longleftrightarrow>
           ctx_grade (page_context resp) \<in> {''A'', ''B''}) \<and>
        (ctx_grade (page_context resp) \<notin> {''A'', ''B''} \<longrightarrow>
           template resp = ''result_reject.html'') \<and>
        ctx_request (page_context resp) = rq \<and>
        (\<exists>t m score proba loan_dec tag.
           predict_score h t m = Inr (score, proba, loan_dec) \<and>
           grade_binning h proba tag = Inr (ctx_grade (page_context resp))))"
proof (intro conjI allI impI)
  fix rp i t m score proba loan_dec grade
  assume "parse_request h (form rq) = Inr rp \<and> parse_input h rp = Inr i \<and>
      feature_engineering h i = Inr t \<and>
      (if truthy (dict_get (form rq) ''bureau'') then model_bureau s else model_no_bureau s)
        = Some m \<and>
      predict_score h t m = Inr (score, proba, loan_dec) \<and>
      grade_binning h proba
        (if truthy (dict_get (form rq) ''bureau'') then ''model_bureau'' else ''model_no_bureau'')
        = Inr grade"
  then show "fst (get_prediction h rq s) =
        Inr \<lparr>template = (if grade \<in> {''A'', ''B''} then ''result_approve.html''
                          else ''result_reject.html''),
             page_context = \<lparr>ctx_request = rq, ctx_grade = grade\<rparr>\<rparr>"
    by (cases "truthy (dict_get (form rq) ''bureau'')")
      (simp_all add: get_prediction_run Let_def)
next
  fix resp
  assume "fst (get_prediction h rq s) = Inr resp"
  then have run: "get_prediction h rq s = (Inr resp, snd (get_prediction h rq s))"
    by (metis prod.collapse)
  from run show "template resp = ''result_approve.html'' \<longleftrightarrow>
           ctx_grade (page_context resp) \<in> {''A'', ''B''}"
    by (auto simp: get_prediction_run Let_def
        split: sum.splits option.splits prod.splits if_splits)
  from run show "ctx_request (page_context resp) = rq"
    by (auto simp: get_prediction_run Let_def
        split: sum.splits option.splits prod.splits if_splits)
  from run show "\<exists>t m score proba loan_dec tag.
           predict_score h t m = Inr (score, proba, loan_dec) \<and>
           grade_binning h proba tag = Inr (ctx_grade (page_context resp))"
    by (auto simp: get_prediction_run Let_def
        split: sum.splits option.splits prod.splits if_splits) blast+
  assume "ctx_grade (page_context resp) \<notin> {''A'', ''B''}"
  with run show "template resp = ''result_reject.html''"
    by (auto simp: get_prediction_run Let_def
        split: sum.splits option.splits prod.splits if_splits)
qed

theorem get_prediction_page_witness:
  "fst (get_prediction sample_helper \<lparr>form = bureaufound\<rparr> sample_state)
     = Inr \<lparr>template = ''result_approve.html'',
            page_context = \<lparr>ctx_request = \<lparr>form = bureaufound\<rparr>, ctx_grade = ''A''\<rparr>\<rparr>
   \<and> fst (get_prediction (sample_helper\<lparr>grade_binning := \<lambda>p tag. Inr ''B''\<rparr>)
           \<lparr>form = bureaufound\<rparr> sample_state)
     = Inr \<lparr>template = ''result_approve.html'',
            page_context = \<lparr>ctx_request = \<lparr>form = bureaufound\<rparr>, ctx_grade = ''B''\<rparr>\<rparr>
   \<and> fst (get_prediction sample_helper \<lparr>form = nobureau\<rparr> sample_state)
     = Inr \<lparr>template = ''result_reject.html'',
            page_context = \<lparr>ctx_request = \<lparr>form = nobureau\<rparr>, ctx_grade = ''C''\<rparr>\<rparr>
   \<and> fst (get_prediction (sample_helper\<lparr>grade_binning := \<lambda>p tag. Inr ''b''\<rparr>)
           \<lparr>form = nobureau\<rparr> sample_state)
     = Inr \<lparr>template = ''result_reject.html'',
            page_context = \<lparr>ctx_request = \<lparr>form = nobureau\<rparr>, ctx_grade = ''b''\<rparr>\<rparr>"
proof -
  have b: "truthy (dict_get bureaufound ''bureau'')"
    and n: "\<not> truthy (dict_get nobureau ''bureau'')"
    by (simp_all add: bureaufound_def nobureau_def dict_get_def)
  from b get_prediction_page [of sample_helper "\<lparr>form = bureaufound\<rparr>" sample_state]
  have 1: "fst (get_prediction sample_helper \<lparr>form = bureaufound\<rparr> sample_state)
     = Inr \<lparr>template = ''result_approve.html'',
            page_context = \<lparr>ctx_request = \<lparr>form = bureaufound\<rparr>, ctx_grade = ''A''\<rparr>\<rparr>"
    by simp
  from b get_prediction_page [of "sample_helper\<lparr>grade_binning := \<lambda>p tag. Inr ''B''\<rparr>"
      "\<lparr>form = bureaufound\<rparr>" sample_state]
  have 2: "fst (get_prediction (sample_helper\<lparr>grade_binning := \<lambda>p tag. Inr ''B''\<rparr>)
           \<lparr>form = bureaufound\<rparr> sample_state)
     = Inr \<lparr>template = ''result_approve.html'',
            page_context = \<lparr>ctx_request = \<lparr>form = bureaufound\<rparr>, ctx_grade = ''B''\<rparr>\<rparr>"
    by simp
  from n get_prediction_page [of sample_helper "\<lparr>form = nobureau\<rparr>" sample_state]
  have 3: "fst (get_prediction sample_helper \<lparr>form = nobureau\<rparr> sample_state)
     = Inr \<lparr>template = ''result_reject.html'',
            page_context = \<lparr>ctx_request = \<lparr>form = nobureau\<rparr>, ctx_grade = ''C''\<rparr>\<rparr>"
    by simp
  from n get_prediction_page [of "sample_helper\<lparr>grade_binning := \<lambda>p tag. Inr ''b''\<rparr>"
      "\<lparr>form = nobureau\<rparr>" sample_state]
  have 4: "fst (get_prediction (sample_helper\<lparr>grade_binning := \<lambda>p tag. Inr ''b''\<rparr>)
           \<lparr>form = nobureau\<rparr> sample_state)
     = Inr \<lparr>template = ''result_reject.html'',
            page_context = \<lparr>ctx_request = \<lparr>form = nobureau\<rparr>, ctx_grade = ''b''\<rparr>\<rparr>"
    by simp
  from 1 2 3 4 show ?thesis by simp
qed

section \<open>The models across requests\<close>

lemma get_prediction_frame:
  "model_bureau (snd (get_prediction h rq s)) = model_bureau s \<and>
   model_no_bureau (snd (get_prediction h rq s)) = model_no_bureau s"
  by (simp add: get_prediction_run Let_def split: sum.split option.split prod.split)

lemma testing_frame:
  "model_bureau (snd (testing h rd s)) = model_bureau s \<and>
   model_no_bureau (snd (testing h rd s)) = model_no_bureau s"
  by (simp add: testing_run Let_def split: sum.split option.split prod.split)

lemma validation_exception_handler_frame:
  "model_bureau (snd (validation_exception_handler exc s)) = model_bureau s \<and>
   model_no_bureau (snd (validation_exception_handler exc s)) = model_no_bureau s"
  by (simp add: validation_exception_handler_run split: sum.split list.split loc_item.split)

text \<open>
  Claim C8. No handler writes to the globals \<^verbatim>\<open>model_bureau\<close> and \<^verbatim>\<open>model_no_bureau\<close>: after
  a request to any endpoint, served or failed, both hold what they held before.
\<close>

theorem handlers_keep_models:
  "model_bureau (snd (get_prediction h rq s)) = model_bureau s
   \<and> model_no_bureau (snd (get_prediction h rq s)) = model_no_bureau s
   \<and> model_bureau (snd (testing h rd s)) = model_bureau s
   \<and> model_no_bureau (snd (testing h rd s)) = model_no_bureau s
   \<and> model_bureau (snd (validation_exception_handler exc s)) = model_bureau s
   \<and> model_no_bureau (snd (validation_exception_handler exc s)) = model_no_bureau s
   \<and> model_bureau (snd (root s)) = model_bureau s
   \<and> model_no_bureau (snd (root s)) = model_no_bureau s
   \<and> snd (index_html rq s) = s"
  using get_prediction_frame [of h rq s] testing_frame [of h rd s]
    validation_exception_handler_frame [of exc s]
  by (simp add: root_run index_html_run)

section \<open>A model that failed to load\<close>








end
